theory Spec2Isabelle
  imports Main "HOL-Library.Sublist" "HOL-Library.Char_ord" "HOL-Library.List_Lexorder"
    "HOL-Library.Multiset"
begin

section \<open>Strings and the substitution primitive\<close>

text \<open>
  Python strings are modelled as \<^typ>\<open>string\<close>. The f-string rendering of a
  non-negative integer is its decimal representation.
\<close>

definition digit_char :: "nat \<Rightarrow> char" where
  "digit_char d = char_of (48 + d)"

fun str_of_nat :: "nat \<Rightarrow> string" where
  "str_of_nat n = (if n < 10 then [digit_char n] else str_of_nat (n div 10) @ [digit_char (n mod 10)])"

declare str_of_nat.simps [simp del]

text \<open>
  \<open>find_first pat s\<close> is the index of the leftmost occurrence of \<open>pat\<close> in \<open>s\<close>, the
  position where the regular-expression engine finds its first match of the escaped
  (hence literal) pattern when it scans forward from index 0.
\<close>

fun find_first :: "string \<Rightarrow> string \<Rightarrow> nat option" where
  "find_first pat [] = (if pat = [] then Some 0 else None)"
| "find_first pat (c # cs) =
     (if prefix pat (c # cs) then Some 0
      else map_option Suc (find_first pat cs))"

text \<open>
  \<open>re.sub('(' + re.escape(snippet) + ')', '\\1' + rep, content, count=1)\<close>: the first match
  is kept and \<open>rep\<close> is written immediately after it; without a match the content is
  returned unchanged.
\<close>

definition sub_first :: "string \<Rightarrow> string \<Rightarrow> string \<Rightarrow> string" where
  "sub_first pat rep s =
     (case find_first pat s of
        None \<Rightarrow> s
      | Some i \<Rightarrow> take (i + length pat) s @ rep @ drop (i + length pat) s)"

definition newline :: char where
  "newline = CHR 0x0A"


definition get_or :: "'a option \<Rightarrow> 'a \<Rightarrow> 'a" where
  "get_or v d = (case v of None \<Rightarrow> d | Some x \<Rightarrow> x)"

section \<open>Comments\<close>

text \<open>
  A comment is the dictionary built by \<open>get_comments\<close>. A key that may be absent is an
  \<open>option\<close> field, read with \<open>get_or\<close> as \<open>dict.get(key, default)\<close> reads it. The anchor of
  a spreadsheet comment is JSON text; \<open>json.loads\<close> is a library function, so the anchor
  is kept as what it evaluates to.
\<close>

datatype anchor =
    AnchorEmpty
  | AnchorInvalid
  | AnchorOther
  | AnchorRange "int option" string



section \<open>Flowing-text documents: \<open>export/docs/converters.py\<close>\<close>



















section \<open>The export cache: \<open>export/models.py\<close> and \<open>export/cache.py\<close>\<close>

text \<open>
  Values as \<open>json.load\<close> returns them. Python is dynamically typed: a metadata field read
  back from disk is whatever JSON value the file holds, and \<open>truthy\<close> is the truth value
  Python's \<open>not\<close> tests.
\<close>

datatype json =
    JNull
  | JBool bool
  | JNum int
  | JStr string
  | JArr "json list"
  | JObj "(string \<times> json) list"

fun truthy :: "json \<Rightarrow> bool" where
  "truthy JNull = False"
| "truthy (JBool b) = b"
| "truthy (JNum n) = (n \<noteq> 0)"
| "truthy (JStr s) = (s \<noteq> [])"
| "truthy (JArr xs) = (xs \<noteq> [])"
| "truthy (JObj kvs) = (kvs \<noteq> [])"

datatype py_error =
    AttributeError
  | TypeError
  | KeyError
  | ValueError
  | OSError
  | JSONDecodeError
  | IOError
  | FileNotFoundError

type_synonym bytes = "char list"

datatype content = Text string | Bytes bytes

record exported_asset =
  a_name :: string
  a_content :: bytes
  a_anchor :: string
  a_mime_type :: string



text \<open>
  The directory tree under one \<open>base_path\<close>. A JSON file is seen through \<open>json.load\<close>:
  opening it fails, parsing it fails, or it yields a value; \<open>json.dump\<close> followed by
  \<open>json.load\<close> is taken to return the value dumped. \<open>d_assets = None\<close> means that the
  \<open>assets\<close> directory does not exist; its files are listed by name, each name once.
\<close>

datatype json_file = Unreadable | Unparsable | Parsed json

record item_dir =
  d_metadata :: "json_file option"
  d_comments :: "json_file option"
  d_content_md :: "string option"
  d_content_pdf :: "bytes option"
  d_assets :: "(string \<times> bytes) list option"

type_synonym cache = "string \<Rightarrow> item_dir option"

definition empty_dir :: item_dir where
  "empty_dir = \<lparr>d_metadata = None, d_comments = None, d_content_md = None,
                 d_content_pdf = None, d_assets = None\<rparr>"







text \<open>
  Reading a JSON file (\<open>open\<close>, then \<open>json.load\<close>), \<open>value[key]\<close> on a loaded value,
  and opening a file in text mode for reading, which turns \<open>\r\n\<close> and \<open>\r\<close> into \<open>\n\<close>
  (universal newlines; writing leaves the text as it is on POSIX).
\<close>

definition read_json :: "json_file option \<Rightarrow> py_error + json" where
  "read_json f =
     (case f of
        None \<Rightarrow> Inl FileNotFoundError
      | Some Unreadable \<Rightarrow> Inl OSError
      | Some Unparsable \<Rightarrow> Inl JSONDecodeError
      | Some (Parsed j) \<Rightarrow> Inr j)"















text \<open>
  \<open>get_cached_metadata\<close> returns \<open>None\<close> when \<open>metadata.json\<close> does not exist and when
  reading or parsing it raises.
\<close>

definition get_cached_metadata :: "cache \<Rightarrow> string \<Rightarrow> json option" where
  "get_cached_metadata disk item_id =
     (case disk item_id of
        None \<Rightarrow> None
      | Some dir \<Rightarrow>
          (case d_metadata dir of
             None \<Rightarrow> None
           | Some f \<Rightarrow> (case read_json (Some f) of Inl e \<Rightarrow> None | Inr j \<Rightarrow> Some j)))"

text \<open>
  \<open>should_skip_export\<close>. \<open>cached_metadata.get\<close> exists on a dictionary only, and
  \<open>cached_modified >= modified_time\<close> compares two strings by code point; against a
  string, a value of any other type raises \<open>TypeError\<close>.
\<close>

definition should_skip_export :: "cache \<Rightarrow> string \<Rightarrow> string \<Rightarrow> py_error + bool" where
  "should_skip_export disk item_id modified_time =
     (case get_cached_metadata disk item_id of
        None \<Rightarrow> Inr False
      | Some cached_metadata \<Rightarrow>
          (if \<not> truthy cached_metadata then Inr False
           else (case cached_metadata of
                   JObj kvs \<Rightarrow>
                     (case map_of kvs ''modified_time'' of
                        None \<Rightarrow> Inr False
                      | Some cached_modified \<Rightarrow>
                          (if \<not> truthy cached_modified then Inr False
                           else (case cached_modified of
                                   JStr cm \<Rightarrow> Inr (modified_time \<le> cm)
                                 | _ \<Rightarrow> Inl TypeError)))
                 | _ \<Rightarrow> Inl AttributeError)))"

definition cache_exists :: "cache \<Rightarrow> string \<Rightarrow> bool" where
  "cache_exists disk item_id =
     (case disk item_id of None \<Rightarrow> False | Some dir \<Rightarrow> d_metadata dir \<noteq> None)"

definition delete_from_disk :: "cache \<Rightarrow> string \<Rightarrow> bool \<times> cache" where
  "delete_from_disk disk item_id =
     (case disk item_id of
        None \<Rightarrow> (False, disk)
      | Some dir \<Rightarrow> (True, disk(item_id := None)))"


definition raises_on :: "json \<Rightarrow> bool" where
  "raises_on j =
     (truthy j \<and>
      (case j of
         JObj kvs \<Rightarrow> (case map_of kvs ''modified_time'' of
                        None \<Rightarrow> False
                      | Some v \<Rightarrow> truthy v \<and> (case v of JStr s \<Rightarrow> False | _ \<Rightarrow> True))
       | _ \<Rightarrow> True))"



definition disk_with_metadata :: "json_file \<Rightarrow> cache" where
  "disk_with_metadata f = [''doc1'' \<mapsto> empty_dir\<lparr>d_metadata := Some f\<rparr>]"



section \<open>Tabular documents: \<open>export/sheets/converters.py\<close>\<close>




definition is_space :: "char \<Rightarrow> bool" where
  "is_space c =
     (let n = (of_char c :: nat)
      in (9 \<le> n \<and> n \<le> 13) \<or> (28 \<le> n \<and> n \<le> 32) \<or> n = 133 \<or> n = 160)"

definition py_strip :: "string \<Rightarrow> string" where
  "py_strip s = rev (dropWhile is_space (rev (dropWhile is_space s)))"











section \<open>Remote assets: \<open>export/slides/converters.py\<close> and \<open>export/sheets/converters.py\<close>\<close>

text \<open>
  The network is a parameter: \<open>fetch url\<close> is the response to a GET request, \<open>None\<close> when
  the request raises (connection error, timeout, error status). A response carries its
  body and, when present, its \<open>Content-Type\<close> header.
\<close>

record response =
  resp_content :: bytes
  resp_content_type :: "string option"

type_synonym fetcher = "string \<Rightarrow> response option"

text \<open>\<open>f"{counter:03d}"\<close>, and \<open>content_type.split(';')[0].strip()\<close>.\<close>

definition fmt_03d :: "nat \<Rightarrow> string" where
  "fmt_03d n = replicate (3 - length (str_of_nat n)) (CHR ''0'') @ str_of_nat n"

definition mime_of_content_type :: "string \<Rightarrow> string" where
  "mime_of_content_type content_type = py_strip (takeWhile (\<lambda>c. c \<noteq> CHR '';'') content_type)"

definition slides_mime_to_ext :: "(string \<times> string) list" where
  "slides_mime_to_ext =
     [(''image/png'', ''.png''), (''image/jpeg'', ''.jpg''), (''image/jpg'', ''.jpg''),
      (''image/gif'', ''.gif''), (''image/svg+xml'', ''.svg''), (''image/webp'', ''.webp'')]"

definition slides_guess_extension_from_mime :: "string \<Rightarrow> string" where
  "slides_guess_extension_from_mime mime_type =
     (case map_of slides_mime_to_ext mime_type of None \<Rightarrow> ''.png'' | Some e \<Rightarrow> e)"

definition download_image_from_url :: "fetcher \<Rightarrow> string \<Rightarrow> nat \<Rightarrow> exported_asset" where
  "download_image_from_url fetch url counter =
     (case fetch url of
        Some resp \<Rightarrow>
          (let binary_data = resp_content resp;
               content_type = get_or (resp_content_type resp) ''image/png'';
               mime_type = mime_of_content_type content_type;
               extension = slides_guess_extension_from_mime mime_type
           in \<lparr>a_name = ''slide_image_'' @ fmt_03d counter @ extension,
               a_content = binary_data,
               a_anchor = ''slide_image_'' @ fmt_03d counter,
               a_mime_type = mime_type\<rparr>)
      | None \<Rightarrow>
          \<lparr>a_name = ''slide_image_'' @ fmt_03d counter @ ''.png'',
           a_content = [],
           a_anchor = ''slide_image_'' @ fmt_03d counter,
           a_mime_type = ''image/png''\<rparr>)"

text \<open>
  A slide as \<open>export_slides_via_api\<close> delivers it, and the state of the loop over the
  slides: the markdown parts, the assets and the image counter.
\<close>

record slide =
  slide_index :: nat
  sl_text_content :: "string option"
  sl_speaker_notes :: "string option"
  sl_images :: "string option list"

type_synonym slides_state = "string list \<times> exported_asset list \<times> nat"

fun images_loop :: "fetcher \<Rightarrow> string option list \<Rightarrow> slides_state \<Rightarrow> slides_state" where
  "images_loop fetch [] st = st"
| "images_loop fetch (image_url # rest) (markdown_parts, assets, image_counter) =
     (if get_or image_url [] \<noteq> []
      then (let asset = download_image_from_url fetch (get_or image_url []) image_counter
            in if a_content asset \<noteq> []
               then images_loop fetch rest
                      (markdown_parts @ [[newline] @ ''!['' @ a_anchor asset @ ''](assets/''
                                         @ a_name asset @ '')'' @ [newline]],
                       assets @ [asset], image_counter + 1)
               else images_loop fetch rest (markdown_parts, assets, image_counter))
      else images_loop fetch rest (markdown_parts, assets, image_counter))"

definition format_speaker_notes :: "string \<Rightarrow> string" where
  "format_speaker_notes notes_text =
     (if py_strip notes_text = [] then []
      else [newline, newline] @ ''### Speaker Notes'' @ [newline, newline]
           @ py_strip notes_text @ [newline])"

fun slides_loop :: "fetcher \<Rightarrow> slide list \<Rightarrow> slides_state \<Rightarrow> slides_state" where
  "slides_loop fetch [] st = st"
| "slides_loop fetch (sl # rest) (markdown_parts, assets, image_counter) =
     (let slide_num = slide_index sl + 1;
          text_content = get_or (sl_text_content sl) [];
          speaker_notes = get_or (sl_speaker_notes sl) [];
          parts1 = markdown_parts @ [''# --- Slide '' @ str_of_nat slide_num @ '' ---'' @ [newline]];
          parts2 = (if text_content \<noteq> [] then parts1 @ [text_content, [newline]]
                    else parts1 @ [''*(No text content)*'' @ [newline]])
      in case images_loop fetch (sl_images sl) (parts2, assets, image_counter) of
           (parts3, assets3, counter3) \<Rightarrow>
             slides_loop fetch rest
               ((if speaker_notes \<noteq> [] then parts3 @ [format_speaker_notes speaker_notes]
                 else parts3) @ [[newline]],
                assets3, counter3))"

text \<open>
  \<open>convert_slides_to_markdown\<close> up to the point where the comments are mapped: the joined
  markdown parts and the asset list. The comment markers and the comment section that
  follow change the markdown only; the asset list is returned as it is here.
\<close>

definition convert_slides_to_markdown :: "fetcher \<Rightarrow> slide list \<Rightarrow> string \<times> exported_asset list" where
  "convert_slides_to_markdown fetch slides =
     (if slides = [] then (''# Empty Presentation'' @ [newline], [])
      else (case slides_loop fetch slides ([], [], 1) of
              (markdown_parts, assets, image_counter) \<Rightarrow> (concat markdown_parts, assets)))"

text \<open>An image entry that ends up in the asset list: it has a URL and its download has a
  non-empty body.\<close>

definition usable :: "fetcher \<Rightarrow> string option \<Rightarrow> bool" where
  "usable fetch image_url =
     (get_or image_url [] \<noteq> []
      \<and> (case fetch (get_or image_url []) of None \<Rightarrow> False | Some resp \<Rightarrow> resp_content resp \<noteq> []))"

text \<open>
  A slide with the image entries that do not end up in the asset list taken out, and the
  sheets extractor. The HTML of a sheet enters through the \<open>src\<close> attributes of its
  \<open>img\<close> elements, in document order; \<open>b64decode\<close> is the library decoder, \<open>None\<close> when
  it raises. The extractor returns the rewritten \<open>src\<close> values and the assets.
\<close>

definition keep_usable :: "fetcher \<Rightarrow> slide \<Rightarrow> slide" where
  "keep_usable fetch sl = sl\<lparr>sl_images := filter (usable fetch) (sl_images sl)\<rparr>"

definition sheets_mime_to_ext :: "(string \<times> string) list" where
  "sheets_mime_to_ext =
     [(''image/png'', ''.png''), (''image/jpeg'', ''.jpg''), (''image/jpg'', ''.jpg''),
      (''image/gif'', ''.gif''), (''image/svg+xml'', ''.svg''), (''image/webp'', ''.webp''),
      (''application/pdf'', ''.pdf'')]"

definition guess_extension_from_mime :: "string \<Rightarrow> string" where
  "guess_extension_from_mime mime_type =
     (case map_of sheets_mime_to_ext mime_type of None \<Rightarrow> ''.bin'' | Some e \<Rightarrow> e)"

definition extract_mime_type_from_data_uri :: "string \<Rightarrow> string" where
  "extract_mime_type_from_data_uri data_uri =
     (if prefix ''data:'' data_uri
      then (let rest = drop 5 data_uri; m = takeWhile (\<lambda>c. c \<noteq> CHR '';'') rest
            in if m \<noteq> [] \<and> length m < length rest then m else ''application/octet-stream'')
      else ''application/octet-stream'')"

definition base64_part :: "string \<Rightarrow> string" where
  "base64_part src =
     (case find_first '';base64,'' src of
        None \<Rightarrow> []
      | Some i \<Rightarrow>
          (let rest = drop (i + 8) src
           in case find_first '';base64,'' rest of None \<Rightarrow> rest | Some j \<Rightarrow> take j rest))"

type_synonym sheets_state = "string list \<times> exported_asset list \<times> nat"

definition sheet_asset :: "nat \<Rightarrow> string \<Rightarrow> bytes \<Rightarrow> exported_asset" where
  "sheet_asset asset_counter mime_type binary_data =
     \<lparr>a_name = ''sheet_asset_'' @ fmt_03d asset_counter @ guess_extension_from_mime mime_type,
      a_content = binary_data,
      a_anchor = ''sheet_asset_'' @ fmt_03d asset_counter,
      a_mime_type = mime_type\<rparr>"

fun sheets_loop :: "fetcher \<Rightarrow> (string \<Rightarrow> bytes option) \<Rightarrow> string list \<Rightarrow> sheets_state
    \<Rightarrow> sheets_state" where
  "sheets_loop fetch b64decode [] st = st"
| "sheets_loop fetch b64decode (src # rest) (srcs, assets, asset_counter) =
     (if prefix ''data:'' src
      then (if find_first '';base64,'' src \<noteq> None
            then (case b64decode (base64_part src) of
                    None \<Rightarrow> sheets_loop fetch b64decode rest (srcs @ [src], assets, asset_counter)
                  | Some binary_data \<Rightarrow>
                      (let asset = sheet_asset asset_counter
                                     (extract_mime_type_from_data_uri src) binary_data
                       in sheets_loop fetch b64decode rest
                            (srcs @ [''assets/'' @ a_name asset], assets @ [asset],
                             asset_counter + 1)))
            else sheets_loop fetch b64decode rest (srcs @ [src], assets, asset_counter))
      else if prefix ''http://'' src \<or> prefix ''https://'' src
      then (case fetch src of
              None \<Rightarrow> sheets_loop fetch b64decode rest (srcs @ [src], assets, asset_counter)
            | Some resp \<Rightarrow>
                (let content_type = get_or (resp_content_type resp) ''application/octet-stream'';
                     asset = sheet_asset asset_counter (mime_of_content_type content_type)
                               (resp_content resp)
                 in sheets_loop fetch b64decode rest
                      (srcs @ [''assets/'' @ a_name asset], assets @ [asset],
                       asset_counter + 1)))
      else sheets_loop fetch b64decode rest (srcs @ [src], assets, asset_counter))"

definition extract_assets_from_sheets_html ::
    "fetcher \<Rightarrow> (string \<Rightarrow> bytes option) \<Rightarrow> string list \<Rightarrow> string list \<times> exported_asset list" where
  "extract_assets_from_sheets_html fetch b64decode img_srcs =
     (case sheets_loop fetch b64decode img_srcs ([], [], 1) of
        (srcs, assets, asset_counter) \<Rightarrow> (srcs, assets))"

definition remote_failure :: "fetcher \<Rightarrow> string \<Rightarrow> bool" where
  "remote_failure fetch src =
     (\<not> prefix ''data:'' src \<and> (prefix ''http://'' src \<or> prefix ''https://'' src)
      \<and> fetch src = None)"

section \<open>Facts about the substitution primitive\<close>

lemma find_first_Some_iff:
  "find_first pat s = Some i \<longleftrightarrow>
     i \<le> length s \<and> prefix pat (drop i s) \<and> (\<forall>k<i. \<not> prefix pat (drop k s))"
proof (induction s arbitrary: i)
  case Nil
  then show ?case by auto
next
  case (Cons c cs)
  show ?case
  proof (cases "prefix pat (c # cs)")
    case True
    then show ?thesis by (cases i) auto
  next
    case False
    show ?thesis
    proof (cases i)
      case 0
      with False show ?thesis by simp
    next
      case (Suc j)
      have "(\<forall>k<Suc j. \<not> prefix pat (drop k (c # cs))) \<longleftrightarrow> (\<forall>k<j. \<not> prefix pat (drop k cs))"
        using False by (auto simp: less_Suc_eq_0_disj)
      with False Suc Cons.IH[of j] show ?thesis by auto
    qed
  qed
qed

lemma find_first_bound:
  assumes "find_first pat s = Some i"
  shows "i + length pat \<le> length s"
proof -
  from assms have p: "prefix pat (drop i s)" and i: "i \<le> length s"
    by (auto simp: find_first_Some_iff)
  have "length pat \<le> length (drop i s)" using p by (rule prefix_length_le)
  then have "length pat \<le> length s - i" by simp
  with i show ?thesis by simp
qed

lemma find_first_decomp:
  assumes "find_first pat s = Some i"
  shows "s = take i s @ pat @ drop (i + length pat) s"
proof -
  from assms have "prefix pat (drop i s)" by (auto simp: find_first_Some_iff)
  then obtain r where r: "drop i s = pat @ r" by (auto simp: prefix_def)
  have "drop (i + length pat) s = drop (length pat) (drop i s)" by (simp add: add.commute)
  also have "\<dots> = r" by (simp add: r)
  finally have r': "drop (i + length pat) s = r" .
  have "s = take i s @ drop i s" by simp
  also have "\<dots> = take i s @ pat @ r" by (simp only: r)
  also have "\<dots> = take i s @ pat @ drop (i + length pat) s" by (simp only: r')
  finally show ?thesis .
qed

lemma prefix_take_iff: "prefix p xs \<longleftrightarrow> take (length p) xs = p"
proof
  assume "prefix p xs"
  then obtain r where "xs = p @ r" by (auto simp: prefix_def)
  then show "take (length p) xs = p" by simp
next
  assume a: "take (length p) xs = p"
  have "prefix (take (length p) xs) xs" by (rule take_is_prefix)
  then show "prefix p xs" unfolding a .
qed

lemma take_drop_swap: "take m (drop k xs) = drop k (take (k + m) xs)"
proof -
  have "drop k (take (k + m) xs) = take (k + m - k) (drop k xs)" by (rule drop_take)
  then show ?thesis by simp
qed

lemma take_drop_ins:
  assumes "k + m \<le> q" "q \<le> length s"
  shows "take m (drop k (take q s @ t)) = take m (drop k s)"
proof -
  have len: "length (take q s) = q" using assms by simp
  have "take (k + m) (take q s @ t) = take (k + m) (take q s)"
    using assms len by simp
  also have "\<dots> = take (k + m) s" using assms by (simp add: min_def)
  finally have "take (k + m) (take q s @ t) = take (k + m) s" .
  then have "drop k (take (k + m) (take q s @ t)) = drop k (take (k + m) s)" by (rule arg_cong)
  then show ?thesis by (simp only: take_drop_swap[symmetric])
qed

lemma find_first_after_insert:
  assumes "find_first pat s = Some i"
  shows "find_first pat (take (i + length pat) s @ rep @ drop (i + length pat) s) = Some i"
proof -
  let ?q = "i + length pat"
  let ?new = "take ?q s @ rep @ drop ?q s"
  have q: "?q \<le> length s" using assms by (rule find_first_bound)
  have old: "prefix pat (drop i s)" "\<forall>k<i. \<not> prefix pat (drop k s)"
    using assms by (auto simp: find_first_Some_iff)
  have same: "take (length pat) (drop k ?new) = take (length pat) (drop k s)" if "k \<le> i" for k
    using take_drop_ins[of k "length pat" ?q s "rep @ drop ?q s"] that q by simp
  have "prefix pat (drop i ?new)"
    using old(1) same[of i] by (simp add: prefix_take_iff)
  moreover have "\<forall>k<i. \<not> prefix pat (drop k ?new)"
  proof (intro allI impI)
    fix k assume "k < i"
    then have "take (length pat) (drop k ?new) = take (length pat) (drop k s)"
      using same[of k] by simp
    moreover have "\<not> prefix pat (drop k s)" using old(2) \<open>k < i\<close> by blast
    ultimately show "\<not> prefix pat (drop k ?new)" by (simp add: prefix_take_iff)
  qed
  moreover have "i \<le> length ?new" using q by simp
  ultimately show ?thesis by (simp only: find_first_Some_iff) 
qed

lemma sub_first_hit:
  "find_first pat s = Some i \<Longrightarrow>
     sub_first pat rep s = take (i + length pat) s @ rep @ drop (i + length pat) s"
  by (simp add: sub_first_def)

lemma sub_first_miss: "find_first pat s = None \<Longrightarrow> sub_first pat rep s = s"
  by (simp add: sub_first_def)

lemma sub_first_twice:
  assumes "find_first pat s = Some i"
  shows "sub_first pat m2 (sub_first pat m1 s)
         = take (i + length pat) s @ m2 @ m1 @ drop (i + length pat) s"
proof -
  let ?q = "i + length pat"
  let ?mid = "take ?q s @ m1 @ drop ?q s"
  have q: "?q \<le> length s" using assms by (rule find_first_bound)
  have 1: "sub_first pat m1 s = ?mid" using assms by (rule sub_first_hit)
  have 2: "find_first pat ?mid = Some i" using assms by (rule find_first_after_insert)
  have 3: "sub_first pat m2 ?mid = take ?q ?mid @ m2 @ drop ?q ?mid" using 2 by (rule sub_first_hit)
  have 4: "take ?q ?mid = take ?q s" using q by simp
  have 5: "drop ?q ?mid = m1 @ drop ?q s" using q by simp
  show ?thesis by (simp only: 1 3 4 5)
qed




section \<open>Flowing-text annotation: repeated snippets\<close>










section \<open>Flowing-text annotation: markers and trailing block\<close>
































section \<open>The export cache: freshness\<close>







lemma cached_metadata_of_dir:
  "disk item_id = Some dir \<Longrightarrow>
   get_cached_metadata disk item_id
   = (case d_metadata dir of Some (Parsed j) \<Rightarrow> Some j | _ \<Rightarrow> None)"
  by (simp add: get_cached_metadata_def read_json_def split: option.splits json_file.splits)

lemma skip_raises_iff:
  "(\<exists>e. should_skip_export disk item_id t = Inl e) \<longleftrightarrow>
   (\<exists>j. get_cached_metadata disk item_id = Some j \<and> raises_on j)"
proof (cases "get_cached_metadata disk item_id")
  case None
  then show ?thesis by (simp add: should_skip_export_def)
next
  case (Some j)
  show ?thesis
  proof (cases j)
    case (JObj kvs)
    show ?thesis
    proof (cases "map_of kvs ''modified_time''")
      case None
      with Some JObj show ?thesis by (simp add: should_skip_export_def raises_on_def)
    next
      case (Some v)
      with \<open>get_cached_metadata disk item_id = Some j\<close> JObj show ?thesis
        by (cases v) (auto simp: should_skip_export_def raises_on_def)
    qed
  qed (use Some in \<open>simp_all add: should_skip_export_def raises_on_def\<close>)
qed




text \<open>
  Claim C10, as amended. \<open>should_skip_export\<close> returns false, and raises nothing, when
  the item has no cache directory, when \<open>metadata.json\<close> is missing, cannot be read or
  cannot be parsed, and when it parses to a dictionary that has no \<open>modified_time\<close> or
  holds \<open>null\<close> or the empty string there.
\<close>

theorem should_skip_degrades:
  "(disk item_id = None \<longrightarrow> should_skip_export disk item_id t = Inr False)
   \<and> (disk item_id = Some dir
        \<and> (d_metadata dir = None \<or> d_metadata dir = Some Unreadable
             \<or> d_metadata dir = Some Unparsable)
      \<longrightarrow> should_skip_export disk item_id t = Inr False)
   \<and> (disk item_id = Some dir \<and> d_metadata dir = Some (Parsed (JObj kvs))
        \<and> (map_of kvs ''modified_time'' = None
             \<or> map_of kvs ''modified_time'' = Some JNull
             \<or> map_of kvs ''modified_time'' = Some (JStr []))
      \<longrightarrow> should_skip_export disk item_id t = Inr False)"
proof (intro conjI impI)
  assume "disk item_id = None"
  then show "should_skip_export disk item_id t = Inr False"
    by (simp add: should_skip_export_def get_cached_metadata_def)
next
  assume a: "disk item_id = Some dir
        \<and> (d_metadata dir = None \<or> d_metadata dir = Some Unreadable
             \<or> d_metadata dir = Some Unparsable)"
  then have "get_cached_metadata disk item_id = None"
    by (auto simp: cached_metadata_of_dir)
  then show "should_skip_export disk item_id t = Inr False"
    by (simp add: should_skip_export_def)
next
  assume a: "disk item_id = Some dir \<and> d_metadata dir = Some (Parsed (JObj kvs))
        \<and> (map_of kvs ''modified_time'' = None
             \<or> map_of kvs ''modified_time'' = Some JNull
             \<or> map_of kvs ''modified_time'' = Some (JStr []))"
  then have g: "get_cached_metadata disk item_id = Some (JObj kvs)"
    by (simp add: cached_metadata_of_dir)
  from a have "map_of kvs ''modified_time'' = None
             \<or> map_of kvs ''modified_time'' = Some JNull
             \<or> map_of kvs ''modified_time'' = Some (JStr [])" by blast
  then show "should_skip_export disk item_id t = Inr False"
    using g by (auto simp: should_skip_export_def)
qed

theorem should_skip_degrades_witness:
  "Map.empty ''doc1'' = (None :: item_dir option)
   \<and> should_skip_export Map.empty ''doc1'' ''2024-05-02'' = Inr False
   \<and> disk_with_metadata Unparsable ''doc1'' = Some (empty_dir\<lparr>d_metadata := Some Unparsable\<rparr>)
   \<and> should_skip_export (disk_with_metadata Unparsable) ''doc1'' ''2024-05-02'' = Inr False
   \<and> map_of [(''item_id'', JStr ''doc1'')] ''modified_time'' = None
   \<and> should_skip_export (disk_with_metadata (Parsed (JObj [(''item_id'', JStr ''doc1'')])))
         ''doc1'' ''2024-05-02'' = Inr False"
proof -
  let ?u = "empty_dir\<lparr>d_metadata := Some Unparsable\<rparr>"
  let ?kvs = "[(''item_id'', JStr ''doc1'')]"
  let ?o = "empty_dir\<lparr>d_metadata := Some (Parsed (JObj ?kvs))\<rparr>"
  have h1: "Map.empty ''doc1'' = (None :: item_dir option)" by simp
  have r1: "should_skip_export Map.empty ''doc1'' ''2024-05-02'' = Inr False"
    using should_skip_degrades[of Map.empty "''doc1''" "''2024-05-02''"] h1 by blast
  have h2: "disk_with_metadata Unparsable ''doc1'' = Some ?u"
    by (simp add: disk_with_metadata_def)
  have h2': "d_metadata ?u = Some Unparsable" by simp
  have r2: "should_skip_export (disk_with_metadata Unparsable) ''doc1'' ''2024-05-02'' = Inr False"
    using should_skip_degrades[of "disk_with_metadata Unparsable" "''doc1''" "''2024-05-02''" ?u]
      h2 h2' by blast
  have h3: "disk_with_metadata (Parsed (JObj ?kvs)) ''doc1'' = Some ?o"
    by (simp add: disk_with_metadata_def)
  have h3': "d_metadata ?o = Some (Parsed (JObj ?kvs))" by simp
  have h3'': "map_of ?kvs ''modified_time'' = None" by simp
  have r3: "should_skip_export (disk_with_metadata (Parsed (JObj ?kvs))) ''doc1'' ''2024-05-02''
            = Inr False"
    using should_skip_degrades[of "disk_with_metadata (Parsed (JObj ?kvs))" "''doc1''"
        "''2024-05-02''" ?o ?kvs] h3 h3' h3'' by blast
  show ?thesis using h1 r1 h2 r2 h3'' r3 by blast
qed

text \<open>
  Where claim C10 fails as stated: a \<open>metadata.json\<close> that parses, but to a list, makes
  \<open>cached_metadata.get\<close> raise \<open>AttributeError\<close>, and one whose \<open>modified_time\<close> is a
  number makes the comparison with the current time raise \<open>TypeError\<close>.
\<close>

theorem should_skip_raises_counterexample:
  "should_skip_export (disk_with_metadata (Parsed (JArr [JNum 1]))) ''doc1'' ''2024-05-02''
     = Inl AttributeError
   \<and> should_skip_export (disk_with_metadata (Parsed (JObj [(''modified_time'', JNum 5)])))
         ''doc1'' ''2024-05-02'' = Inl TypeError"
  by (simp add: should_skip_export_def get_cached_metadata_def read_json_def
      disk_with_metadata_def empty_dir_def)

section \<open>The export cache: write, then read\<close>















section \<open>Tabular annotation: where a comment is attached\<close>












end
